theory Spec2Isabelle
  imports Complex_Main "HOL-Library.Log_Nat"
begin

section \<open>Python values, exceptions and floats\<close>

text \<open>
  The soil monitor is a small Flask application: a factory of sensor backends
  (\<^verbatim>\<open>hardware/soil_monitor.py\<close>), two services (\<^verbatim>\<open>services/soil.py\<close>,
  \<^verbatim>\<open>services/health.py\<close>) and two routes (\<^verbatim>\<open>app.py\<close>).  Every function
  of the source becomes a function on an explicit \<open>world\<close>: the process environment,
  the outcomes of the calls into libraries the repository does not contain (the I2C
  driver, the random source, the clock), standard output and the object allocator.
  A raised exception is the \<open>Inl\<close> of a sum.
\<close>

datatype exn =
    KeyError string
  | ValueError string
  | AttributeError string
  | NotImplementedError
  | ModuleNotFoundError string
  | ImportError string
  | LibraryError string

text \<open>
  A Python float is the rational number it denotes.  \<open>round_double\<close> rounds a rational
  to the nearest number with a 53-bit significand, ties to even, as IEEE 754 binary64
  arithmetic does on every result; the exponent range is not bounded, which is exact
  for every value between \<open>2 powi (-1022)\<close> and \<open>2 powi 1024\<close> in magnitude.
\<close>

datatype pyval = PyInt int | PyFloat rat | PyStr string

definition rne :: "rat \<Rightarrow> int" where
  "rne x = (let f = \<lfloor>x\<rfloor>; r = x - of_int f
            in if r < 1 / 2 then f
               else if 1 / 2 < r then f + 1
               else if even f then f else f + 1)"

definition ilog2 :: "rat \<Rightarrow> int" where
  "ilog2 x = (let d = bitlen (fst (quotient_of x)) - bitlen (snd (quotient_of x))
              in if 2 powi d \<le> x then d else d - 1)"

definition round_double :: "rat \<Rightarrow> rat" where
  "round_double x =
     (if x = 0 then 0
      else let u = 2 powi (ilog2 \<bar>x\<bar> - 52)
           in sgn x * of_int (rne (\<bar>x\<bar> / u)) * u)"

definition float_of_int :: "int \<Rightarrow> rat" where
  "float_of_int n = round_double (of_int n)"

definition fadd :: "rat \<Rightarrow> rat \<Rightarrow> rat" where
  "fadd x y = round_double (x + y)"

definition fsub :: "rat \<Rightarrow> rat \<Rightarrow> rat" where
  "fsub x y = round_double (x - y)"

definition fmul :: "rat \<Rightarrow> rat \<Rightarrow> rat" where
  "fmul x y = round_double (x * y)"

text \<open>\<^verbatim>\<open>int(x)\<close> of a float truncates towards zero.\<close>

definition py_int :: "rat \<Rightarrow> int" where
  "py_int x = (if 0 \<le> x then \<lfloor>x\<rfloor> else \<lceil>x\<rceil>)"

text \<open>
  \<^verbatim>\<open>round(x, 1)\<close> of a float: the decimal with one fractional digit nearest to \<open>x\<close>
  (ties to even), then the double nearest to that decimal.
\<close>

definition py_round1 :: "rat \<Rightarrow> rat" where
  "py_round1 x = round_double (of_int (rne (x * 10)) / 10)"

section \<open>The world outside the repository\<close>

datatype i2c_bus = I2C_handle nat

datatype seesaw = Seesaw_handle nat

record world =
  environ :: "string \<rightharpoonup> string"
  sys_modules :: "string set"
  import_outcome :: "string \<Rightarrow> exn option"
  board_I2C :: "exn + i2c_bus"
  Seesaw :: "i2c_bus \<Rightarrow> nat \<Rightarrow> exn + seesaw"
  moisture_feed :: "nat \<Rightarrow> exn + int"
  temp_feed :: "nat \<Rightarrow> exn + rat"
  sensor_reads :: nat
  random_feed :: "nat \<Rightarrow> nat"
  random_draws :: nat
  clock_feed :: "nat \<Rightarrow> rat"
  clock_reads :: nat
  stdout :: "string list"
  next_id :: nat

text \<open>
  \<^item> \<open>environ\<close> is \<^verbatim>\<open>os.environ\<close>, \<open>sys_modules\<close> the keys of \<^verbatim>\<open>sys.modules\<close>;
  \<^item> \<open>import_outcome m\<close> is what \<^verbatim>\<open>import m\<close> does on this platform (\<open>None\<close>: the
    module loads), \<open>board_I2C\<close> what \<^verbatim>\<open>board.I2C()\<close> does and \<open>Seesaw bus addr\<close> what
    \<^verbatim>\<open>Seesaw(bus, addr=addr)\<close> does;
  \<^item> \<open>moisture_feed n\<close> and \<open>temp_feed n\<close> are the outcomes of the driver's
    \<^verbatim>\<open>moisture_read()\<close> and \<^verbatim>\<open>get_temp()\<close> when they are the \<open>n\<close>-th transaction
    with the sensor, \<open>random_feed n\<close> the \<open>n\<close>-th raw outcome of the random source and
    \<open>clock_feed n\<close> the \<open>n\<close>-th reading of \<^verbatim>\<open>time.time()\<close>;
  \<^item> \<open>next_id\<close> is the identity the next monitor or backend object gets when it is
    constructed: two objects are the same object when their identities are equal.
\<close>

definition print :: "string \<Rightarrow> world \<Rightarrow> world" where
  "print s w = w\<lparr>stdout := stdout w @ [s]\<rparr>"

definition os_getenv :: "string \<Rightarrow> world \<Rightarrow> string option" where
  "os_getenv k w = environ w k"

definition time_time :: "world \<Rightarrow> rat \<times> world" where
  "time_time w = (clock_feed w (clock_reads w), w\<lparr>clock_reads := Suc (clock_reads w)\<rparr>)"

definition alloc :: "world \<Rightarrow> nat \<times> world" where
  "alloc w = (next_id w, w\<lparr>next_id := Suc (next_id w)\<rparr>)"

text \<open>
  \<^verbatim>\<open>random.randint(a, b)\<close> returns an integer \<open>N\<close> with \<open>a \<le> N \<le> b\<close>, both ends
  included (the repository calls it with \<open>a \<le> b\<close> only, so the error of an empty range
  is left out); \<^verbatim>\<open>random.random()\<close> returns \<open>k / 2^53\<close> for a \<open>k < 2^53\<close>, and
  \<^verbatim>\<open>random.uniform(a, b)\<close> is \<^verbatim>\<open>a + (b - a) * random()\<close> in float arithmetic.  Which
  \<open>N\<close> and which \<open>k\<close> is for the random source to say: every one of them is the
  outcome for some \<open>random_feed\<close>.
\<close>

definition random_randint :: "int \<Rightarrow> int \<Rightarrow> world \<Rightarrow> int \<times> world" where
  "random_randint a b w =
     (a + int (random_feed w (random_draws w)) mod (b - a + 1),
      w\<lparr>random_draws := Suc (random_draws w)\<rparr>)"

definition random_random :: "world \<Rightarrow> rat \<times> world" where
  "random_random w =
     (of_nat (random_feed w (random_draws w) mod 2 ^ 53) / 2 ^ 53,
      w\<lparr>random_draws := Suc (random_draws w)\<rparr>)"

definition random_uniform :: "int \<Rightarrow> int \<Rightarrow> world \<Rightarrow> rat \<times> world" where
  "random_uniform a b w =
     (let (u, w') = random_random w
      in (fadd (float_of_int a) (fmul (float_of_int (b - a)) u), w'))"

text \<open>The driver's reads: one transaction with the sensor each.\<close>

definition moisture_read :: "seesaw \<Rightarrow> world \<Rightarrow> (exn + int) \<times> world" where
  "moisture_read dev w =
     (moisture_feed w (sensor_reads w), w\<lparr>sensor_reads := Suc (sensor_reads w)\<rparr>)"

definition get_temp :: "seesaw \<Rightarrow> world \<Rightarrow> (exn + rat) \<times> world" where
  "get_temp dev w =
     (temp_feed w (sensor_reads w), w\<lparr>sensor_reads := Suc (sensor_reads w)\<rparr>)"

section \<open>hardware/soil\_monitor.py\<close>

subsection \<open>The import guard\<close>

text \<open>
  \<^verbatim>\<open>import m\<close>: the module is entered in \<^verbatim>\<open>sys.modules\<close> when it loads, and the
  exception of a failed import is raised.
\<close>

definition import_module :: "string \<Rightarrow> world \<Rightarrow> (exn + unit) \<times> world" where
  "import_module m w =
     (case import_outcome w m of
        None \<Rightarrow> (Inr (), w\<lparr>sys_modules := insert m (sys_modules w)\<rparr>)
      | Some e \<Rightarrow> (Inl e, w))"

text \<open>Lines 6 to 13: only \<^verbatim>\<open>NotImplementedError\<close> is caught.\<close>

definition except_NotImplementedError :: "exn \<Rightarrow> world \<Rightarrow> (exn + unit) \<times> world" where
  "except_NotImplementedError e w =
     (if e = NotImplementedError
      then (Inr (), print ''Unable to load adafruit components'' w)
      else (Inl e, w))"

definition import_guard :: "world \<Rightarrow> (exn + unit) \<times> world" where
  "import_guard w =
     (case import_module ''time'' w of
        (Inl e, w1) \<Rightarrow> except_NotImplementedError e w1
      | (Inr _, w1) \<Rightarrow>
          (case import_module ''board'' w1 of
             (Inl e, w2) \<Rightarrow> except_NotImplementedError e w2
           | (Inr _, w2) \<Rightarrow>
               (case import_module ''adafruit_seesaw.seesaw'' w2 of
                  (Inl e, w3) \<Rightarrow> except_NotImplementedError e w3
                | (Inr _, w3) \<Rightarrow> (Inr (), print ''Loaded adafruit components'' w3))))"

subsection \<open>The backends\<close>

record stemma =
  stemma_id :: nat
  loaded :: bool
  ss :: "seesaw option"

datatype backend = AdafruitStemmaSoilMonitor stemma | MockedSoilMonitor nat

fun backend_id :: "backend \<Rightarrow> nat" where
  "backend_id (AdafruitStemmaSoilMonitor s) = stemma_id s"
| "backend_id (MockedSoilMonitor i) = i"

text \<open>
  \<^verbatim>\<open>_AdafruitStemmaSoilMonitor.__init__\<close>, lines 195 to 206.  The object exists before
  its initialiser runs; \<^verbatim>\<open>self.ss\<close> is assigned in the last branch only.
\<close>

definition AdafruitStemma_init :: "world \<Rightarrow> (exn + backend) \<times> world" where
  "AdafruitStemma_init w =
     (let (i, w0) = alloc w;
          self0 = \<lparr>stemma_id = i, loaded = True, ss = None\<rparr>;
          (self1, w1) =
            (if ''board'' \<notin> sys_modules w0
             then (self0\<lparr>loaded := False\<rparr>, print ''board was not loaded'' w0)
             else (self0, w0));
          (self2, w2) =
            (if ''adafruit_seesaw.seesaw'' \<notin> sys_modules w1
             then (self1\<lparr>loaded := False\<rparr>, print ''adafruit_seesaw.seesaw was not loaded'' w1)
             else (self1, w1))
      in if loaded self2
         then (case board_I2C w2 of
                 Inl e \<Rightarrow> (Inl e, w2)
               | Inr i2c \<Rightarrow>
                   (case Seesaw w2 i2c 0x36 of
                      Inl e \<Rightarrow> (Inl e, w2)
                    | Inr dev \<Rightarrow> (Inr (AdafruitStemmaSoilMonitor (self2\<lparr>ss := Some dev\<rparr>)), w2)))
         else (Inr (AdafruitStemmaSoilMonitor self2), w2))"

definition Mocked_init :: "world \<Rightarrow> (exn + backend) \<times> world" where
  "Mocked_init w = (let (i, w0) = alloc w in (Inr (MockedSoilMonitor i), w0))"

text \<open>Lines 208 to 245 and 262 to 293: the three methods of each backend.\<close>

fun get_soil_saturation :: "backend \<Rightarrow> world \<Rightarrow> (exn + pyval) \<times> world" where
  "get_soil_saturation (AdafruitStemmaSoilMonitor self) w =
     (if loaded self
      then (case ss self of
              None \<Rightarrow> (Inl (AttributeError ''ss''), w)
            | Some dev \<Rightarrow>
                (case moisture_read dev w of
                   (Inl e, w1) \<Rightarrow> (Inl e, w1)
                 | (Inr m, w1) \<Rightarrow> (Inr (PyInt m), w1)))
      else (Inr (PyInt (- 1)),
            print ''Adafruit stemma device not set up, returning -1 for soil saturation'' w))"
| "get_soil_saturation (MockedSoilMonitor i) w =
     (let (n, w1) = random_randint 0 101 w in (Inr (PyInt n), w1))"

fun get_air_temp :: "backend \<Rightarrow> world \<Rightarrow> (exn + pyval) \<times> world" where
  "get_air_temp (AdafruitStemmaSoilMonitor self) w =
     (if loaded self
      then (case ss self of
              None \<Rightarrow> (Inl (AttributeError ''ss''), w)
            | Some dev \<Rightarrow>
                (case get_temp dev w of
                   (Inl e, w1) \<Rightarrow> (Inl e, w1)
                 | (Inr t, w1) \<Rightarrow> (Inr (PyFloat (py_round1 t)), w1)))
      else (Inr (PyInt (- 1)),
            print ''Adafruit stemma device not set up, returning -1 for soil saturation'' w))"
| "get_air_temp (MockedSoilMonitor i) w =
     (let (t, w1) = random_uniform 0 50 w in (Inr (PyFloat t), w1))"

fun get_name :: "backend \<Rightarrow> string" where
  "get_name (AdafruitStemmaSoilMonitor self) = ''Adafruit Stemma''"
| "get_name (MockedSoilMonitor i) = ''Mocked Soil Monitor''"

subsection \<open>The factory\<close>

text \<open>
  The registry maps a key to whatever was registered: a class, called to construct an
  instance, or any other object; of those only a falsy one (\<^verbatim>\<open>None\<close>) is told apart.
\<close>

datatype registered = PyNone | PyClass "world \<Rightarrow> (exn + backend) \<times> world"

record SoilMonitorFactory =
  soil_monitors :: "string \<rightharpoonup> registered"

definition SoilMonitorFactory_init :: SoilMonitorFactory where
  "SoilMonitorFactory_init = \<lparr>soil_monitors = Map.empty\<rparr>"

definition register_soil_monitor ::
  "SoilMonitorFactory \<Rightarrow> string \<Rightarrow> registered \<Rightarrow> SoilMonitorFactory" where
  "register_soil_monitor self key soil_monitor =
     self\<lparr>soil_monitors := (soil_monitors self)(key \<mapsto> soil_monitor)\<rparr>"

text \<open>
  Lines 97 to 114.  The subscript \<^verbatim>\<open>self._soil_monitors[key]\<close> raises
  \<^verbatim>\<open>KeyError(key)\<close> for a key the dictionary does not hold, before the test
  \<^verbatim>\<open>if not soil_monitor\<close> is reached.
\<close>

definition get_soil_monitor ::
  "SoilMonitorFactory \<Rightarrow> string \<Rightarrow> world \<Rightarrow> (exn + backend) \<times> world" where
  "get_soil_monitor self key w =
     (case soil_monitors self key of
        None \<Rightarrow> (Inl (KeyError key), w)
      | Some soil_monitor \<Rightarrow>
          (case soil_monitor of
             PyNone \<Rightarrow> (Inl (ValueError key), w)
           | PyClass cls \<Rightarrow> cls w))"

text \<open>Lines 295 to 297: the module's factory and its two registrations.\<close>

definition soil_monitor_factory :: SoilMonitorFactory where
  "soil_monitor_factory =
     register_soil_monitor
       (register_soil_monitor SoilMonitorFactory_init
          ''adafruitstemma'' (PyClass AdafruitStemma_init))
       ''mocked'' (PyClass Mocked_init)"

subsection \<open>The public monitor\<close>

record SoilMonitor =
  monitor_id :: nat
  soil_monitor_name :: string
  soil_monitor :: backend

text \<open>Lines 135 to 139: \<^verbatim>\<open>not name\<close> holds of \<^verbatim>\<open>None\<close> and of the empty string.\<close>

definition SoilMonitor_init :: "world \<Rightarrow> (exn + SoilMonitor) \<times> world" where
  "SoilMonitor_init w =
     (let (i, w0) = alloc w;
          name = (case os_getenv ''soil_monitor'' w0 of
                    None \<Rightarrow> ''mocked''
                  | Some v \<Rightarrow> if v = [] then ''mocked'' else v)
      in case get_soil_monitor soil_monitor_factory name w0 of
           (Inl e, w1) \<Rightarrow> (Inl e, w1)
         | (Inr b, w1) \<Rightarrow>
             (Inr \<lparr>monitor_id = i, soil_monitor_name = name, soil_monitor = b\<rparr>, w1))"

definition SoilMonitor_get_soil_saturation ::
  "SoilMonitor \<Rightarrow> world \<Rightarrow> (exn + pyval) \<times> world" where
  "SoilMonitor_get_soil_saturation self w = get_soil_saturation (soil_monitor self) w"

definition SoilMonitor_get_air_temp :: "SoilMonitor \<Rightarrow> world \<Rightarrow> (exn + pyval) \<times> world" where
  "SoilMonitor_get_air_temp self w = get_air_temp (soil_monitor self) w"

definition SoilMonitor_get_name :: "SoilMonitor \<Rightarrow> string" where
  "SoilMonitor_get_name self = get_name (soil_monitor self)"

section \<open>services/soil.py and services/health.py\<close>

type_synonym pydict = "string \<rightharpoonup> pyval"

text \<open>
  \<^verbatim>\<open>SoilService.get_soil_status\<close> reads the module's global \<^verbatim>\<open>soil_monitor\<close>, here
  its first argument.
\<close>

definition get_soil_status :: "SoilMonitor \<Rightarrow> world \<Rightarrow> (exn + pydict) \<times> world" where
  "get_soil_status monitor w =
     (case SoilMonitor_get_soil_saturation monitor w of
        (Inl e, w1) \<Rightarrow> (Inl e, w1)
      | (Inr saturation, w1) \<Rightarrow>
          (case SoilMonitor_get_air_temp monitor w1 of
             (Inl e, w2) \<Rightarrow> (Inl e, w2)
           | (Inr temp, w2) \<Rightarrow>
               (Inr [''saturation'' \<mapsto> saturation, ''temp'' \<mapsto> temp], w2)))"

record HealthService =
  start_time :: rat
  health_monitor :: SoilMonitor

definition HealthService_init :: "world \<Rightarrow> (exn + HealthService) \<times> world" where
  "HealthService_init w =
     (let (t, w1) = time_time w
      in case SoilMonitor_init w1 of
           (Inl e, w2) \<Rightarrow> (Inl e, w2)
         | (Inr m, w2) \<Rightarrow> (Inr \<lparr>start_time = t, health_monitor = m\<rparr>, w2))"

definition get_total_app_uptime_seconds :: "HealthService \<Rightarrow> world \<Rightarrow> int \<times> world" where
  "get_total_app_uptime_seconds self w =
     (let (t, w1) = time_time w in (py_int (fsub t (start_time self)), w1))"

definition get_current_soil_monitor :: "HealthService \<Rightarrow> string" where
  "get_current_soil_monitor self = SoilMonitor_get_name (health_monitor self)"

definition get_health :: "HealthService \<Rightarrow> world \<Rightarrow> pydict \<times> world" where
  "get_health self w =
     (let (uptime, w1) = get_total_app_uptime_seconds self w
      in ([''uptime'' \<mapsto> PyInt uptime,
           ''soilMonitor'' \<mapsto> PyStr (get_current_soil_monitor self)], w1))"

section \<open>Loading the modules\<close>

text \<open>
  A dotted module name is the list of its components.  \<open>resolve_name name package level\<close>
  is what Python does with \<^verbatim>\<open>from ..name import x\<close> (\<open>level\<close> dots) in a module of
  package \<open>package\<close>: the package's last \<open>level - 1\<close> components are dropped, and
  with fewer than \<open>level\<close> components the import is refused.
\<close>

definition resolve_name :: "string list \<Rightarrow> string list \<Rightarrow> nat \<Rightarrow> exn + string list" where
  "resolve_name name package level =
     (if length package < level
      then Inl (ImportError ''attempted relative import beyond top-level package'')
      else Inr (take (Suc (length package) - level) package @ name))"

text \<open>
  Loading \<^verbatim>\<open>services/soil.py\<close> as a module of package \<open>package\<close>.  Line 1 is
  \<^verbatim>\<open>from ..hardware.soil_monitor import SoilMonitor\<close>: once the name is resolved,
  \<^verbatim>\<open>hardware/soil_monitor.py\<close> runs (the import guard, then the classes and the factory),
  and line 3 constructs the module's global \<^verbatim>\<open>soil_monitor\<close>, which is the result.
\<close>

definition load_services_soil :: "string list \<Rightarrow> world \<Rightarrow> (exn + SoilMonitor) \<times> world" where
  "load_services_soil package w =
     (case resolve_name [''hardware'', ''soil_monitor''] package 2 of
        Inl e \<Rightarrow> (Inl e, w)
      | Inr hardware_soil_monitor \<Rightarrow>
          (case import_guard w of
             (Inl e, w1) \<Rightarrow> (Inl e, w1)
           | (Inr _, w1) \<Rightarrow> SoilMonitor_init w1))"

section \<open>app.py\<close>

text \<open>
  The objects the two handlers read: the global \<^verbatim>\<open>soil_monitor\<close> of
  \<^verbatim>\<open>services/soil.py\<close>, read by the status service, and the health service.
  (\<^verbatim>\<open>SoilService\<close> has no attribute.)
\<close>

record app =
  status_monitor :: SoilMonitor
  health_service :: HealthService

text \<open>
  Lines 1 to 8.  \<^verbatim>\<open>from services.soil import SoilService\<close> loads
  \<^verbatim>\<open>services/soil.py\<close> as a module of the top-level package \<^verbatim>\<open>services\<close>;
  \<^verbatim>\<open>from services.health import HealthService\<close> then resolves \<^verbatim>\<open>from .soil import\<close>
  in that package (the module is loaded already), and the two services are constructed.
\<close>

definition startup :: "world \<Rightarrow> (exn + app) \<times> world" where
  "startup w =
     (case load_services_soil [''services''] w of
        (Inl e, w1) \<Rightarrow> (Inl e, w1)
      | (Inr m, w1) \<Rightarrow>
          (case resolve_name [''soil''] [''services''] 1 of
             Inl e \<Rightarrow> (Inl e, w1)
           | Inr services_soil \<Rightarrow>
               (case HealthService_init w1 of
                  (Inl e, w2) \<Rightarrow> (Inl e, w2)
                | (Inr h, w2) \<Rightarrow> (Inr \<lparr>status_monitor = m, health_service = h\<rparr>, w2))))"

datatype request = GET_root | GET_health

text \<open>
  Lines 10 to 16: a request runs its route's handler on the two objects; the handlers
  assign to neither, so the objects are handed on as they are.
\<close>

fun route :: "request \<Rightarrow> app \<times> world \<Rightarrow> (exn + pydict) \<times> (app \<times> world)" where
  "route GET_root (a, w) =
     (let (r, w1) = get_soil_status (status_monitor a) w in (r, (a, w1)))"
| "route GET_health (a, w) =
     (let (d, w1) = get_health (health_service a) w in (Inr d, (a, w1)))"

fun serve :: "request list \<Rightarrow> app \<times> world \<Rightarrow> (exn + pydict) list \<times> (app \<times> world)" where
  "serve [] s = ([], s)"
| "serve (q # qs) s =
     (let (r, s1) = route q s; (rs, s2) = serve qs s1 in (r # rs, s2))"

text \<open>The uptime a response reports, when it reports one.\<close>

fun uptime_of :: "exn + pydict \<Rightarrow> int option" where
  "uptime_of (Inl e) = None"
| "uptime_of (Inr d) = (case d ''uptime'' of Some (PyInt u) \<Rightarrow> Some u | _ \<Rightarrow> None)"

definition uptimes :: "(exn + pydict) list \<Rightarrow> int list" where
  "uptimes rs = List.map_filter uptime_of rs"

section \<open>Sample platforms\<close>

text \<open>
  A workstation on which the \<^verbatim>\<open>board\<close> package is installed but refuses the platform
  (its import raises \<^verbatim>\<open>NotImplementedError\<close>), with no selection in the environment.
\<close>

definition workstation :: world where
  "workstation =
     \<lparr>environ = Map.empty,
      sys_modules = {},
      import_outcome = (\<lambda>m. if m = ''time'' then None else Some NotImplementedError),
      board_I2C = Inl (LibraryError ''no I2C bus''),
      Seesaw = (\<lambda>i2c addr. Inl (LibraryError ''no I2C bus'')),
      moisture_feed = (\<lambda>n. Inl (LibraryError ''no sensor'')),
      temp_feed = (\<lambda>n. Inl (LibraryError ''no sensor'')),
      sensor_reads = 0,
      random_feed = (\<lambda>n. 101),
      random_draws = 0,
      clock_feed = (\<lambda>n. of_nat n * 3 / 2),
      clock_reads = 0,
      stdout = [],
      next_id = 0\<rparr>"

text \<open>
  A Raspberry Pi with the driver modules loaded, the sensor answering at address
  \<open>0x36\<close>, and the hardware backend selected.
\<close>

definition raspberry_pi :: world where
  "raspberry_pi =
     \<lparr>environ = [''soil_monitor'' \<mapsto> ''adafruitstemma''],
      sys_modules = {''time'', ''board'', ''adafruit_seesaw.seesaw''},
      import_outcome = (\<lambda>m. None),
      board_I2C = Inr (I2C_handle 1),
      Seesaw = (\<lambda>i2c addr. if addr = 0x36 then Inr (Seesaw_handle 1)
                             else Inl (LibraryError ''No I2C device at address'')),
      moisture_feed = (\<lambda>n. Inr 600),
      temp_feed = (\<lambda>n. Inr (469 / 20)),
      sensor_reads = 0,
      random_feed = (\<lambda>n. n),
      random_draws = 0,
      clock_feed = (\<lambda>n. of_nat n * 3 / 2),
      clock_reads = 0,
      stdout = [],
      next_id = 0\<rparr>"

text \<open>The same Pi with the sensor unplugged before the process starts.\<close>

definition pi_without_sensor :: world where
  "pi_without_sensor =
     raspberry_pi\<lparr>Seesaw := (\<lambda>i2c addr. Inl (LibraryError ''No I2C device at address''))\<rparr>"

text \<open>The same Pi with a sensor that stops answering once the process runs.\<close>

definition pi_read_failure :: world where
  "pi_read_failure =
     raspberry_pi\<lparr>moisture_feed :=
       (\<lambda>n. Inl (LibraryError ''Could not get a valid moisture reading.''))\<rparr>"

text \<open>
  The objects constructed on the workstation by line 3 of \<^verbatim>\<open>services/soil.py\<close> and then
  by \<^verbatim>\<open>HealthService()\<close>, and the world the first of them leaves.
\<close>

definition workstation_loaded :: world where
  "workstation_loaded = workstation\<lparr>next_id := 2\<rparr>"

definition workstation_app :: app where
  "workstation_app =
     \<lparr>status_monitor =
        \<lparr>monitor_id = 0, soil_monitor_name = ''mocked'', soil_monitor = MockedSoilMonitor 1\<rparr>,
      health_service =
        \<lparr>start_time = 0,
         health_monitor =
           \<lparr>monitor_id = 2, soil_monitor_name = ''mocked'',
            soil_monitor = MockedSoilMonitor 3\<rparr>\<rparr>\<rparr>"

text \<open>A monitor over a hardware backend that is ready, as it is constructed on the Pi.\<close>

definition pi_monitor :: SoilMonitor where
  "pi_monitor =
     \<lparr>monitor_id = 0, soil_monitor_name = ''adafruitstemma'',
      soil_monitor = AdafruitStemmaSoilMonitor
        \<lparr>stemma_id = 1, loaded = True, ss = Some (Seesaw_handle 1)\<rparr>\<rparr>"

section \<open>Auxiliary notions\<close>

text \<open>The key \<^verbatim>\<open>SoilMonitor.__init__\<close> resolves: the environment's, or \<open>mocked\<close>.\<close>

definition selected_key :: "world \<Rightarrow> string" where
  "selected_key w = (case environ w ''soil_monitor'' of
                       None \<Rightarrow> ''mocked''
                     | Some v \<Rightarrow> if v = [] then ''mocked'' else v)"

text \<open>
  The backends whose reads call nothing outside the repository that can raise: the
  simulated one, and the hardware one when it is not ready.
\<close>

definition always_answers :: "backend \<Rightarrow> bool" where
  "always_answers b =
     (case b of MockedSoilMonitor i \<Rightarrow> True | AdafruitStemmaSoilMonitor self \<Rightarrow> \<not> loaded self)"

text \<open>The uptime a health service reports when the clock's \<open>n\<close>-th reading is taken.\<close>

definition uptime_at :: "HealthService \<Rightarrow> world \<Rightarrow> nat \<Rightarrow> int" where
  "uptime_at h w n = py_int (fsub (clock_feed w n) (start_time h))"

section \<open>Rounding is monotone\<close>

text \<open>
  Rounding to the nearest double never reverses the order of two numbers, and neither
  does truncation to an integer; the bounds on the simulated temperature and on the
  uptime rest on that.
\<close>

lemma rne_bounds: "\<lfloor>x\<rfloor> \<le> rne x \<and> rne x \<le> \<lfloor>x\<rfloor> + 1"
  by (simp add: rne_def Let_def)

lemma rne_of_int: "rne (of_int n) = n"
  by (simp add: rne_def)

lemma rne_mono:
  assumes "x \<le> y"
  shows "rne x \<le> rne y"
proof (cases "\<lfloor>x\<rfloor> < \<lfloor>y\<rfloor>")
  case True
  have "rne x \<le> \<lfloor>x\<rfloor> + 1" using rne_bounds [of x] by simp
  also have "\<dots> \<le> \<lfloor>y\<rfloor>" using True by simp
  also have "\<dots> \<le> rne y" using rne_bounds [of y] by simp
  finally show ?thesis .
next
  case False
  with floor_mono [OF assms] have eq: "\<lfloor>x\<rfloor> = \<lfloor>y\<rfloor>" by simp
  have "x - of_int \<lfloor>y\<rfloor> \<le> y - of_int \<lfloor>y\<rfloor>" using assms by simp
  then show ?thesis
    unfolding rne_def Let_def eq by auto
qed

lemma two_powi_pos: "0 < (2::rat) powi e"
  by simp

lemma two_powi_le_iff: "(2::rat) powi a \<le> 2 powi b \<longleftrightarrow> a \<le> b"
proof
  assume "(2::rat) powi a \<le> 2 powi b"
  show "a \<le> b"
  proof (rule ccontr)
    assume "\<not> a \<le> b"
    then have "b < a" by simp
    from power_int_strict_increasing [OF this, of "2::rat"] \<open>(2::rat) powi a \<le> 2 powi b\<close>
    show False by simp
  qed
next
  assume "a \<le> b"
  then show "(2::rat) powi a \<le> 2 powi b" by (rule power_int_increasing) simp
qed

lemma two_powi_less_iff: "(2::rat) powi a < 2 powi b \<longleftrightarrow> a < b"
  using two_powi_le_iff [of b a] by (simp add: not_le [symmetric])

lemma two_powi_Suc: "(2::rat) powi (e + 1) = 2 * 2 powi e"
  by (simp add: power_int_add_1')

lemma ilog2_bounds:
  assumes "0 < x"
  shows "2 powi (ilog2 x) \<le> x \<and> x < 2 powi (ilog2 x + 1)"
proof -
  obtain p q where pq: "quotient_of x = (p, q)" by (cases "quotient_of x")
  have q: "0 < q" using pq by (rule quotient_of_denom_pos)
  have x: "x = of_int p / of_int q" using pq by (rule quotient_of_div)
  have p: "0 < p" using assms q x by (simp add: zero_less_divide_iff)
  let ?bp = "bitlen p" and ?bq = "bitlen q"
  have bp1: "1 \<le> ?bp" using p by (simp add: bitlen_alt_def)
  have bq1: "1 \<le> ?bq" using q by (simp add: bitlen_alt_def)
  from bitlen_bounds [OF p] have "(2::int) ^ nat (?bp - 1) \<le> p" "p < 2 ^ nat ?bp" by simp_all
  then have "(of_int (2 ^ nat (?bp - 1)) :: rat) \<le> of_int p" "(of_int p :: rat) < of_int (2 ^ nat ?bp)"
    by (simp_all only: of_int_le_iff of_int_less_iff)
  then have P: "(2::rat) powi (?bp - 1) \<le> of_int p" "(of_int p :: rat) < 2 powi ?bp"
    using bp1 by (simp_all add: power_int_def)
  from bitlen_bounds [OF q] have "(2::int) ^ nat (?bq - 1) \<le> q" "q < 2 ^ nat ?bq" by simp_all
  then have "(of_int (2 ^ nat (?bq - 1)) :: rat) \<le> of_int q" "(of_int q :: rat) < of_int (2 ^ nat ?bq)"
    by (simp_all only: of_int_le_iff of_int_less_iff)
  then have Q: "(2::rat) powi (?bq - 1) \<le> of_int q" "(of_int q :: rat) < 2 powi ?bq"
    using bq1 by (simp_all add: power_int_def)
  have xq: "x * of_int q = of_int p" using x q by simp
  let ?d = "?bp - ?bq"
  have up: "x < 2 powi (?d + 1)"
  proof -
    have "x * 2 powi (?bq - 1) \<le> x * of_int q"
      using Q(1) assms by (simp add: mult_left_mono)
    also have "\<dots> < 2 powi ?bp" using xq P(2) by simp
    also have "\<dots> = 2 powi (?d + 1) * 2 powi (?bq - 1)"
      by (simp flip: power_int_add)
    finally show ?thesis by simp
  qed
  have lo: "2 powi (?d - 1) < x"
  proof -
    have "2 powi (?d - 1) * 2 powi ?bq = (2::rat) powi (?bp - 1)"
      by (simp flip: power_int_add)
    also have "\<dots> \<le> x * of_int q" using xq P(1) by simp
    also have "\<dots> < x * 2 powi ?bq" using Q(2) assms by (simp add: mult_strict_left_mono)
    finally show ?thesis by simp
  qed
  show ?thesis
  proof (cases "2 powi ?d \<le> x")
    case True
    then have "ilog2 x = ?d" using pq by (simp add: ilog2_def)
    with True up show ?thesis by simp
  next
    case False
    then have "ilog2 x = ?d - 1" using pq by (simp add: ilog2_def)
    with False lo show ?thesis by simp
  qed
qed

lemma ilog2_unique:
  assumes "0 < x" "2 powi e \<le> x" "x < 2 powi (e + 1)"
  shows "ilog2 x = e"
proof -
  from ilog2_bounds [OF assms(1)] have b: "2 powi (ilog2 x) \<le> x" "x < 2 powi (ilog2 x + 1)"
    by simp_all
  from b(1) assms(3) have "(2::rat) powi (ilog2 x) < 2 powi (e + 1)" by (rule le_less_trans)
  then have 1: "ilog2 x < e + 1" by (simp only: two_powi_less_iff)
  from assms(2) b(2) have "(2::rat) powi e < 2 powi (ilog2 x + 1)" by (rule le_less_trans)
  then have 2: "e < ilog2 x + 1" by (simp only: two_powi_less_iff)
  from 1 2 show ?thesis by simp
qed

lemma ilog2_mono:
  assumes "0 < x" "x \<le> y"
  shows "ilog2 x \<le> ilog2 y"
proof -
  have y: "0 < y" using assms by simp
  from ilog2_bounds [OF assms(1)] ilog2_bounds [OF y] assms(2)
  have "(2::rat) powi (ilog2 x) < 2 powi (ilog2 y + 1)" by simp
  then have "ilog2 x < ilog2 y + 1" by (simp only: two_powi_less_iff)
  then show ?thesis by simp
qed

lemma round_double_pos:
  assumes "0 < x"
  shows "round_double x = of_int (rne (x / 2 powi (ilog2 x - 52))) * 2 powi (ilog2 x - 52)"
  using assms by (simp add: round_double_def Let_def)

lemma round_double_at:
  assumes "0 < x" "2 powi e \<le> x" "x < 2 powi (e + 1)"
  shows "round_double x = of_int (rne (x / 2 powi (e - 52))) * 2 powi (e - 52)"
  using round_double_pos [OF assms(1)] ilog2_unique [OF assms] by simp

lemma significand_range:
  assumes "2 powi e \<le> x" "x < 2 powi (e + 1)"
  shows "2 ^ 52 \<le> rne (x / 2 powi (e - 52)) \<and> rne (x / 2 powi (e - 52)) \<le> 2 ^ 53"
proof -
  let ?u = "(2::rat) powi (e - 52)"
  have u: "0 < ?u" by simp
  have lo: "(2::rat) powi e = of_int (2 ^ 52) * ?u"
    using power_int_add [of "2::rat" 52 "e - 52"] by simp
  have hi: "(2::rat) powi (e + 1) = of_int (2 ^ 53) * ?u"
    using power_int_add [of "2::rat" 53 "e - 52"] by (simp add: ac_simps)
  have "of_int (2 ^ 52) \<le> x / ?u"
    using assms(1) u lo by (simp add: pos_le_divide_eq)
  from rne_mono [OF this] have 1: "2 ^ 52 \<le> rne (x / ?u)" by (simp only: rne_of_int)
  have "x / ?u \<le> of_int (2 ^ 53)"
    using assms(2) u hi by (simp add: pos_divide_le_eq)
  from rne_mono [OF this] have 2: "rne (x / ?u) \<le> 2 ^ 53" by (simp only: rne_of_int)
  from 1 2 show ?thesis ..
qed

lemma round_double_binade:
  assumes "0 < x"
  shows "2 powi (ilog2 x) \<le> round_double x \<and> round_double x \<le> 2 powi (ilog2 x + 1)"
proof -
  let ?e = "ilog2 x"
  let ?u = "(2::rat) powi (?e - 52)"
  let ?m = "rne (x / ?u)"
  have u: "0 < ?u" by simp
  from ilog2_bounds [OF assms] have b: "2 powi ?e \<le> x" "x < 2 powi (?e + 1)" by simp_all
  from significand_range [OF b] have m: "2 ^ 52 \<le> ?m" "?m \<le> 2 ^ 53" by simp_all
  have lo: "(2::rat) powi ?e = of_int (2 ^ 52) * ?u"
    using power_int_add [of "2::rat" 52 "?e - 52"] by simp
  have hi: "(2::rat) powi (?e + 1) = of_int (2 ^ 53) * ?u"
    using power_int_add [of "2::rat" 53 "?e - 52"] by (simp add: ac_simps)
  have "(of_int (2 ^ 52) :: rat) \<le> of_int ?m" using m(1) by (simp only: of_int_le_iff)
  then have 1: "of_int (2 ^ 52) * ?u \<le> of_int ?m * ?u" using u by (simp only: mult_le_cancel_right_pos)
  have "(of_int ?m :: rat) \<le> of_int (2 ^ 53)" using m(2) by (simp only: of_int_le_iff)
  then have 2: "of_int ?m * ?u \<le> of_int (2 ^ 53) * ?u" using u by (simp only: mult_le_cancel_right_pos)
  from 1 2 show ?thesis
    unfolding round_double_pos [OF assms] lo hi by simp
qed

lemma round_double_mono_pos:
  assumes "0 < x" "x \<le> y"
  shows "round_double x \<le> round_double y"
proof -
  have y: "0 < y" using assms by simp
  from ilog2_mono [OF assms] consider (same) "ilog2 x = ilog2 y" | (less) "ilog2 x + 1 \<le> ilog2 y"
    by linarith
  then show ?thesis
  proof cases
    case same
    let ?u = "(2::rat) powi (ilog2 y - 52)"
    have u: "0 < ?u" by simp
    have "x / ?u \<le> y / ?u" using assms(2) u by (simp add: divide_right_mono)
    from rne_mono [OF this] have "(of_int (rne (x / ?u)) :: rat) \<le> of_int (rne (y / ?u))"
      by (simp only: of_int_le_iff)
    then have "of_int (rne (x / ?u)) * ?u \<le> of_int (rne (y / ?u)) * ?u"
      using u by (simp only: mult_le_cancel_right_pos)
    then show ?thesis
      unfolding round_double_pos [OF assms(1)] round_double_pos [OF y] same .
  next
    case less
    have "round_double x \<le> 2 powi (ilog2 x + 1)" using round_double_binade [OF assms(1)] by simp
    also have "\<dots> \<le> 2 powi (ilog2 y)" using less by (simp only: two_powi_le_iff)
    also have "\<dots> \<le> round_double y" using round_double_binade [OF y] by simp
    finally show ?thesis .
  qed
qed

lemma round_double_zero: "round_double 0 = 0"
  by (simp add: round_double_def)

lemma round_double_minus: "round_double (- x) = - round_double x"
  by (simp add: round_double_def Let_def)

lemma round_double_nonneg:
  assumes "0 \<le> x"
  shows "0 \<le> round_double x"
proof (cases "x = 0")
  case True
  then show ?thesis by (simp add: round_double_zero)
next
  case False
  with assms have x: "0 < x" by simp
  have "(0::rat) \<le> 2 powi (ilog2 x)" by simp
  also have "\<dots> \<le> round_double x" using round_double_binade [OF x] by simp
  finally show ?thesis .
qed

lemma round_double_mono:
  assumes "x \<le> y"
  shows "round_double x \<le> round_double y"
proof -
  consider (pos) "0 < x" | (zero) "x = 0" | (neg) "x < 0" "0 \<le> y" | (negneg) "x < 0" "y < 0"
    by linarith
  then show ?thesis
  proof cases
    case pos
    then show ?thesis using assms by (rule round_double_mono_pos)
  next
    case zero
    with assms round_double_nonneg [of y] show ?thesis by (simp add: round_double_zero)
  next
    case neg
    have "0 \<le> round_double (- x)" using neg(1) by (intro round_double_nonneg) simp
    then have "round_double x \<le> 0" using round_double_minus [of x] by simp
    also have "\<dots> \<le> round_double y" using neg(2) by (rule round_double_nonneg)
    finally show ?thesis .
  next
    case negneg
    have "round_double (- y) \<le> round_double (- x)"
      using negneg assms by (intro round_double_mono_pos) simp_all
    then show ?thesis by (simp add: round_double_minus)
  qed
qed

lemma py_int_mono:
  assumes "x \<le> y"
  shows "py_int x \<le> py_int y"
proof -
  consider (a) "0 \<le> x" | (b) "x < 0" "0 \<le> y" | (c) "y < 0" using assms by linarith
  then show ?thesis
  proof cases
    case a
    with assms floor_mono [OF assms] show ?thesis by (simp add: py_int_def)
  next
    case b
    have "\<lceil>x\<rceil> \<le> 0" using b(1) by (simp add: ceiling_le_iff)
    moreover have "0 \<le> \<lfloor>y\<rfloor>" using b(2) by simp
    ultimately have "\<lceil>x\<rceil> \<le> \<lfloor>y\<rfloor>" by linarith
    then show ?thesis using b by (simp add: py_int_def)
  next
    case c
    with assms ceiling_mono [OF assms] show ?thesis by (simp add: py_int_def)
  qed
qed

lemma py_int_nonneg: "0 \<le> x \<Longrightarrow> 0 \<le> py_int x"
  by (simp add: py_int_def)

lemma uptime_mono:
  "t1 \<le> t2 \<Longrightarrow> py_int (fsub t1 s) \<le> py_int (fsub t2 s)"
  unfolding fsub_def by (intro py_int_mono round_double_mono) simp

lemma uptime_nonneg:
  "s \<le> t \<Longrightarrow> 0 \<le> py_int (fsub t s)"
  unfolding fsub_def by (intro py_int_nonneg round_double_nonneg) simp

section \<open>The hardware backend when it is not ready\<close>

text \<open>
  C4.  A hardware backend whose \<open>loaded\<close> flag is false returns the integer \<open>-1\<close> from
  \<open>get_soil_saturation\<close> and from \<open>get_air_temp\<close>, raising nothing (the only effect is the
  diagnostic line on standard output), and \<open>get_name\<close> is \<open>Adafruit Stemma\<close> whatever
  the flag.
\<close>

theorem stemma_not_ready_sentinel:
  "get_soil_saturation (AdafruitStemmaSoilMonitor (self\<lparr>loaded := False\<rparr>)) w =
     (Inr (PyInt (- 1)),
      print ''Adafruit stemma device not set up, returning -1 for soil saturation'' w)
   \<and> get_air_temp (AdafruitStemmaSoilMonitor (self\<lparr>loaded := False\<rparr>)) w =
     (Inr (PyInt (- 1)),
      print ''Adafruit stemma device not set up, returning -1 for soil saturation'' w)
   \<and> get_name (AdafruitStemmaSoilMonitor self) = ''Adafruit Stemma''"
  by simp

section \<open>The factory\<close>

lemma factory_mocked:
  "soil_monitors soil_monitor_factory ''mocked'' = Some (PyClass Mocked_init)"
  by (simp add: soil_monitor_factory_def register_soil_monitor_def SoilMonitorFactory_init_def)

lemma factory_adafruitstemma:
  "soil_monitors soil_monitor_factory ''adafruitstemma'' = Some (PyClass AdafruitStemma_init)"
  by (simp add: soil_monitor_factory_def register_soil_monitor_def SoilMonitorFactory_init_def)

lemma factory_other:
  "key \<noteq> ''mocked'' \<Longrightarrow> key \<noteq> ''adafruitstemma'' \<Longrightarrow>
     soil_monitors soil_monitor_factory key = None"
  by (simp add: soil_monitor_factory_def register_soil_monitor_def SoilMonitorFactory_init_def)

lemma factory_dom: "dom (soil_monitors soil_monitor_factory) = {''adafruitstemma'', ''mocked''}"
  by (auto simp: soil_monitor_factory_def register_soil_monitor_def SoilMonitorFactory_init_def
      split: if_splits)

lemma AdafruitStemma_init_fresh:
  "AdafruitStemma_init w = (Inr b, w') \<Longrightarrow>
     backend_id b = next_id w \<and> next_id w' = Suc (next_id w)"
  by (auto simp: AdafruitStemma_init_def alloc_def print_def Let_def split: if_splits sum.splits)

lemma AdafruitStemma_init_frame:
  "AdafruitStemma_init w = (r, w') \<Longrightarrow>
     environ w' = environ w \<and> clock_feed w' = clock_feed w \<and> clock_reads w' = clock_reads w"
  by (auto simp: AdafruitStemma_init_def alloc_def print_def Let_def split: if_splits sum.splits)

lemma AdafruitStemma_init_name:
  "AdafruitStemma_init w = (Inr b, w') \<Longrightarrow> get_name b = ''Adafruit Stemma''"
  by (auto simp: AdafruitStemma_init_def alloc_def print_def Let_def split: if_splits sum.splits)

lemma Mocked_init_frame:
  "Mocked_init w = (r, w') \<Longrightarrow>
     environ w' = environ w \<and> clock_feed w' = clock_feed w \<and> clock_reads w' = clock_reads w"
  by (auto simp: Mocked_init_def alloc_def)

lemma AdafruitStemma_init_workstation:
  "AdafruitStemma_init workstation =
     (Inr (AdafruitStemmaSoilMonitor \<lparr>stemma_id = 0, loaded = False, ss = None\<rparr>),
      workstation\<lparr>next_id := 1,
        stdout := [''board was not loaded'', ''adafruit_seesaw.seesaw was not loaded'']\<rparr>)"
  by (simp add: AdafruitStemma_init_def alloc_def print_def workstation_def)

text \<open>
  What the lookup raises for a key that was never registered: the dictionary's own
  \<^verbatim>\<open>KeyError\<close>.  The \<^verbatim>\<open>ValueError\<close> of line 113 is raised only for a key registered
  with a falsy object.
\<close>

lemma get_soil_monitor_unregistered:
  "soil_monitors f key = None \<Longrightarrow> get_soil_monitor f key w = (Inl (KeyError key), w)"
  by (simp add: get_soil_monitor_def)

lemma get_soil_monitor_falsy:
  "soil_monitors f key = Some PyNone \<Longrightarrow> get_soil_monitor f key w = (Inl (ValueError key), w)"
  by (simp add: get_soil_monitor_def)

text \<open>
  C1, as the code has it.  For a key that is not registered \<open>get_soil_monitor\<close> raises
  an exception and calls no constructor (the world is as it was).  The module's factory
  holds exactly the keys \<open>adafruitstemma\<close> and \<open>mocked\<close>.  For \<open>mocked\<close> the call
  returns a new simulated backend, whose identity no earlier object has.  For
  \<open>adafruitstemma\<close> it is the call of the hardware backend's constructor: it returns
  the new backend when the constructor completes, and raises what the constructor
  raises.
\<close>

theorem get_soil_monitor_resolves:
  "(soil_monitors f key = None \<longrightarrow> (\<exists>e. get_soil_monitor f key w = (Inl e, w)))
   \<and> dom (soil_monitors soil_monitor_factory) = {''adafruitstemma'', ''mocked''}
   \<and> get_soil_monitor soil_monitor_factory ''mocked'' w =
       (Inr (MockedSoilMonitor (next_id w)), w\<lparr>next_id := Suc (next_id w)\<rparr>)
   \<and> get_soil_monitor soil_monitor_factory ''adafruitstemma'' w = AdafruitStemma_init w
   \<and> (\<forall>b w'. AdafruitStemma_init w = (Inr b, w') \<longrightarrow>
         backend_id b = next_id w \<and> next_id w' = Suc (next_id w))"
  using AdafruitStemma_init_fresh [of w] factory_dom
  by (simp add: get_soil_monitor_def factory_mocked factory_adafruitstemma Mocked_init_def
      alloc_def)

theorem get_soil_monitor_resolves_witness:
  "soil_monitors soil_monitor_factory ''foo'' = None
   \<and> (\<exists>e. get_soil_monitor soil_monitor_factory ''foo'' workstation = (Inl e, workstation))
   \<and> get_soil_monitor soil_monitor_factory ''mocked'' workstation =
       (Inr (MockedSoilMonitor 0), workstation\<lparr>next_id := 1\<rparr>)
   \<and> fst (get_soil_monitor soil_monitor_factory ''adafruitstemma'' workstation) =
       Inr (AdafruitStemmaSoilMonitor \<lparr>stemma_id = 0, loaded = False, ss = None\<rparr>)"
proof -
  have none: "soil_monitors soil_monitor_factory ''foo'' = None"
    by (simp add: factory_other)
  have zero: "next_id workstation = 0"
    by (simp add: workstation_def)
  show ?thesis
    using get_soil_monitor_resolves [of soil_monitor_factory "''foo''" workstation]
      none zero AdafruitStemma_init_workstation
    by simp
qed

text \<open>
  The claim as stated fails for \<open>adafruitstemma\<close>: on a Pi whose sensor does not answer,
  the driver modules are loaded, the registered constructor calls \<^verbatim>\<open>Seesaw(...)\<close>, and
  its exception leaves \<open>get_soil_monitor\<close>.
\<close>

theorem get_soil_monitor_stemma_raises:
  "fst (get_soil_monitor soil_monitor_factory ''adafruitstemma'' pi_without_sensor)
     = Inl (LibraryError ''No I2C device at address'')"
  by (simp add: get_soil_monitor_def factory_adafruitstemma AdafruitStemma_init_def alloc_def
      pi_without_sensor_def raspberry_pi_def)

section \<open>The simulated backend's saturation\<close>

lemma random_randint_onto:
  assumes "a \<le> n" "n \<le> b"
  shows "fst (random_randint a b (w\<lparr>random_feed := (\<lambda>i. nat (n - a))\<rparr>)) = n"
  using assms by (simp add: random_randint_def)

lemma random_random_onto:
  assumes "k < 2 ^ 53"
  shows "fst (random_random (w\<lparr>random_feed := (\<lambda>i. k)\<rparr>)) = of_nat k / 2 ^ 53"
  using assms by (simp add: random_random_def)

lemma mocked_saturation_range:
  "\<exists>n. fst (get_soil_saturation (MockedSoilMonitor i) w) = Inr (PyInt n) \<and> 0 \<le> n \<and> n \<le> 101"
  by (simp add: random_randint_def)

text \<open>
  C2.  \<^verbatim>\<open>random.randint(0, 101)\<close> includes its upper end: when the random source's
  outcome is \<open>101\<close>, the simulated backend reports a saturation of \<open>101\<close>, outside the
  range from 0 to 100 that the claim and the method's docstring give.
\<close>

theorem mocked_saturation_reaches_101:
  "fst (get_soil_saturation (MockedSoilMonitor 0) workstation) = Inr (PyInt 101)"
  by (simp add: workstation_def random_randint_def)

section \<open>Selecting the backend\<close>

lemma SoilMonitor_init_unfold:
  "SoilMonitor_init w =
     (case get_soil_monitor soil_monitor_factory (selected_key w)
             (w\<lparr>next_id := Suc (next_id w)\<rparr>) of
        (Inl e, w1) \<Rightarrow> (Inl e, w1)
      | (Inr b, w1) \<Rightarrow>
          (Inr \<lparr>monitor_id = next_id w, soil_monitor_name = selected_key w,
                 soil_monitor = b\<rparr>, w1))"
  by (simp add: SoilMonitor_init_def selected_key_def alloc_def os_getenv_def Let_def
      split: prod.splits sum.splits)

lemma SoilMonitor_init_default:
  assumes "environ w ''soil_monitor'' = None \<or> environ w ''soil_monitor'' = Some []"
  shows "SoilMonitor_init w =
           (Inr \<lparr>monitor_id = next_id w, soil_monitor_name = ''mocked'',
                  soil_monitor = MockedSoilMonitor (Suc (next_id w))\<rparr>,
            w\<lparr>next_id := Suc (Suc (next_id w))\<rparr>)"
proof -
  from assms have "selected_key w = ''mocked''" by (auto simp: selected_key_def)
  then show ?thesis
    by (simp add: SoilMonitor_init_unfold get_soil_monitor_def factory_mocked Mocked_init_def
        alloc_def)
qed

lemma SoilMonitor_init_unknown:
  assumes "environ w ''soil_monitor'' = Some v" "v \<noteq> []" "v \<noteq> ''mocked''"
    "v \<noteq> ''adafruitstemma''"
  shows "SoilMonitor_init w = (Inl (KeyError v), w\<lparr>next_id := Suc (next_id w)\<rparr>)"
proof -
  from assms have k: "selected_key w = v" by (simp add: selected_key_def)
  from assms have "soil_monitors soil_monitor_factory v = None" by (simp add: factory_other)
  with k show ?thesis by (simp add: SoilMonitor_init_unfold get_soil_monitor_def)
qed

lemma import_guard_frame:
  "environ (snd (import_guard w)) = environ w
   \<and> clock_feed (snd (import_guard w)) = clock_feed w
   \<and> clock_reads (snd (import_guard w)) = clock_reads w"
  by (simp add: import_guard_def import_module_def except_NotImplementedError_def print_def
      split: option.splits)

text \<open>
  C5.  With \<^verbatim>\<open>soil_monitor\<close> set to \<open>arduino\<close>, a string that is no registered key,
  constructing a \<open>SoilMonitor\<close> does fail at once, but with the dictionary's
  \<^verbatim>\<open>KeyError\<close> of line 111: the configuration error the factory declares for an unknown
  key, \<^verbatim>\<open>ValueError(key)\<close> on lines 112 and 113, is not what is raised.  (The selection of
  \<open>mocked\<close> for an unset or empty variable is \<open>SoilMonitor_init_default\<close>.)
\<close>

theorem SoilMonitor_init_unknown_key:
  "SoilMonitor_init (workstation\<lparr>environ := [''soil_monitor'' \<mapsto> ''arduino'']\<rparr>) =
     (Inl (KeyError ''arduino''),
      workstation\<lparr>environ := [''soil_monitor'' \<mapsto> ''arduino''], next_id := 1\<rparr>)"
proof -
  let ?w = "workstation\<lparr>environ := [''soil_monitor'' \<mapsto> ''arduino'']\<rparr>"
  have "next_id ?w = 0" by (simp add: workstation_def)
  moreover have "SoilMonitor_init ?w = (Inl (KeyError ''arduino''), ?w\<lparr>next_id := Suc (next_id ?w)\<rparr>)"
    by (rule SoilMonitor_init_unknown) simp_all
  ultimately show ?thesis by simp
qed

section \<open>Constructing the hardware backend\<close>

text \<open>
  The import guard lets every exception but \<^verbatim>\<open>NotImplementedError\<close> through: where the
  \<^verbatim>\<open>board\<close> package is not installed at all, its import raises
  \<^verbatim>\<open>ModuleNotFoundError\<close> and the module, constructor included, does not load.
\<close>

lemma import_guard_uncaught:
  assumes "import_outcome w ''time'' = None" "import_outcome w ''board'' = Some e"
    "e \<noteq> NotImplementedError"
  shows "fst (import_guard w) = Inl e"
  using assms
  by (simp add: import_guard_def import_module_def except_NotImplementedError_def)

lemma import_guard_caught:
  assumes "import_outcome w ''time'' = None" "import_outcome w ''board'' = Some NotImplementedError"
  shows "import_guard w = (Inr (), print ''Unable to load adafruit components''
                                   (w\<lparr>sys_modules := insert ''time'' (sys_modules w)\<rparr>))"
  using assms
  by (simp add: import_guard_def import_module_def except_NotImplementedError_def)

text \<open>
  C6, as the code has it.  When \<^verbatim>\<open>board\<close> or \<^verbatim>\<open>adafruit_seesaw.seesaw\<close> is missing
  from \<^verbatim>\<open>sys.modules\<close>, the constructor completes with the flag \<open>loaded\<close> false and no
  driver.  When both are there, it calls \<^verbatim>\<open>board.I2C()\<close> and
  \<^verbatim>\<open>Seesaw(i2c_bus, addr=0x36)\<close>: it completes, ready, when both return, and raises
  what either raises.
\<close>

theorem AdafruitStemma_init_cases:
  "(''board'' \<notin> sys_modules w \<or> ''adafruit_seesaw.seesaw'' \<notin> sys_modules w \<longrightarrow>
      (\<exists>self w'. AdafruitStemma_init w = (Inr (AdafruitStemmaSoilMonitor self), w')
         \<and> \<not> loaded self \<and> ss self = None))
   \<and> (''board'' \<in> sys_modules w \<and> ''adafruit_seesaw.seesaw'' \<in> sys_modules w \<longrightarrow>
      AdafruitStemma_init w =
        (case board_I2C w of
           Inl e \<Rightarrow> (Inl e, w\<lparr>next_id := Suc (next_id w)\<rparr>)
         | Inr i2c \<Rightarrow>
             (case Seesaw w i2c 0x36 of
                Inl e \<Rightarrow> (Inl e, w\<lparr>next_id := Suc (next_id w)\<rparr>)
              | Inr dev \<Rightarrow>
                  (Inr (AdafruitStemmaSoilMonitor
                         \<lparr>stemma_id = next_id w, loaded = True, ss = Some dev\<rparr>),
                   w\<lparr>next_id := Suc (next_id w)\<rparr>))))"
  by (auto simp: AdafruitStemma_init_def alloc_def print_def Let_def split: sum.splits)

theorem AdafruitStemma_init_cases_witness:
  "''board'' \<notin> sys_modules workstation
   \<and> (\<exists>self w'. AdafruitStemma_init workstation = (Inr (AdafruitStemmaSoilMonitor self), w')
         \<and> \<not> loaded self \<and> ss self = None)
   \<and> ''board'' \<in> sys_modules raspberry_pi
   \<and> ''adafruit_seesaw.seesaw'' \<in> sys_modules raspberry_pi
   \<and> AdafruitStemma_init raspberry_pi =
        (Inr (AdafruitStemmaSoilMonitor
               \<lparr>stemma_id = 0, loaded = True, ss = Some (Seesaw_handle 1)\<rparr>),
         raspberry_pi\<lparr>next_id := 1\<rparr>)"
proof -
  have a: "''board'' \<notin> sys_modules workstation"
    by (simp add: workstation_def)
  have b: "''board'' \<in> sys_modules raspberry_pi"
    "''adafruit_seesaw.seesaw'' \<in> sys_modules raspberry_pi"
    "board_I2C raspberry_pi = Inr (I2C_handle 1)"
    "Seesaw raspberry_pi (I2C_handle 1) 0x36 = Inr (Seesaw_handle 1)"
    "next_id raspberry_pi = 0"
    by (simp_all add: raspberry_pi_def)
  show ?thesis
    using AdafruitStemma_init_cases [of workstation] AdafruitStemma_init_cases [of raspberry_pi]
      a b
    by simp
qed

text \<open>
  The claim as stated fails on a Pi whose sensor does not answer: both modules are
  loaded, \<^verbatim>\<open>Seesaw(...)\<close> raises, and so does the constructor.
\<close>

theorem AdafruitStemma_init_raises:
  "AdafruitStemma_init pi_without_sensor =
     (Inl (LibraryError ''No I2C device at address''), pi_without_sensor\<lparr>next_id := 1\<rparr>)"
  by (simp add: AdafruitStemma_init_def alloc_def pi_without_sensor_def raspberry_pi_def)

section \<open>The status service\<close>

lemma get_soil_status_returns:
  "get_soil_saturation (soil_monitor m) w = (Inr s, w1) \<Longrightarrow>
   get_air_temp (soil_monitor m) w1 = (Inr t, w2) \<Longrightarrow>
   get_soil_status m w = (Inr [''saturation'' \<mapsto> s, ''temp'' \<mapsto> t], w2)"
  by (simp add: get_soil_status_def SoilMonitor_get_soil_saturation_def
      SoilMonitor_get_air_temp_def)

lemma dom_status: "dom [''saturation'' \<mapsto> s, ''temp'' \<mapsto> t] = {''saturation'', ''temp''}"
  by auto

lemma always_answers_reads:
  "always_answers b \<Longrightarrow>
     \<exists>s w1 t w2. get_soil_saturation b w = (Inr s, w1) \<and> get_air_temp b w1 = (Inr t, w2)"
  by (cases b)
     (auto simp: always_answers_def random_randint_def random_uniform_def random_random_def
        Let_def)

text \<open>
  C8, as the code has it.  \<open>get_soil_status\<close> calls the backend's
  \<open>get_soil_saturation\<close>, then its \<open>get_air_temp\<close> on the world the first call left.
  When both return, the result is the dictionary with exactly the keys \<open>saturation\<close>
  and \<open>temp\<close>, holding the two values as they were returned.  For the simulated
  backend and for the hardware backend that is not ready both always return, so the
  dictionary is always there.  An exception raised by either call (a driver read that
  fails on a ready hardware backend) leaves \<open>get_soil_status\<close> unchanged.
\<close>

theorem get_soil_status_shape:
  "(get_soil_saturation (soil_monitor m) w = (Inr s, w1) \<and>
    get_air_temp (soil_monitor m) w1 = (Inr t, w2) \<longrightarrow>
      (\<exists>d. get_soil_status m w = (Inr d, w2) \<and> dom d = {''saturation'', ''temp''}
            \<and> d ''saturation'' = Some s \<and> d ''temp'' = Some t))
   \<and> (always_answers (soil_monitor m) \<longrightarrow>
      (\<exists>d w'. get_soil_status m w = (Inr d, w') \<and> dom d = {''saturation'', ''temp''}))
   \<and> (get_soil_saturation (soil_monitor m) w = (Inl e, w1) \<longrightarrow>
        get_soil_status m w = (Inl e, w1))
   \<and> (get_soil_saturation (soil_monitor m) w = (Inr s, w1) \<and>
      get_air_temp (soil_monitor m) w1 = (Inl e, w2) \<longrightarrow> get_soil_status m w = (Inl e, w2))"
proof (intro conjI impI)
  assume "get_soil_saturation (soil_monitor m) w = (Inr s, w1) \<and>
    get_air_temp (soil_monitor m) w1 = (Inr t, w2)"
  then have "get_soil_status m w = (Inr [''saturation'' \<mapsto> s, ''temp'' \<mapsto> t], w2)"
    by (simp add: get_soil_status_returns)
  then show "\<exists>d. get_soil_status m w = (Inr d, w2) \<and> dom d = {''saturation'', ''temp''}
            \<and> d ''saturation'' = Some s \<and> d ''temp'' = Some t"
    using dom_status [of s t] by simp
next
  assume "always_answers (soil_monitor m)"
  from always_answers_reads [OF this, of w] obtain s' w1' t' w2'
    where "get_soil_saturation (soil_monitor m) w = (Inr s', w1')"
      and "get_air_temp (soil_monitor m) w1' = (Inr t', w2')" by blast
  then have "get_soil_status m w = (Inr [''saturation'' \<mapsto> s', ''temp'' \<mapsto> t'], w2')"
    by (rule get_soil_status_returns)
  then show "\<exists>d w'. get_soil_status m w = (Inr d, w') \<and> dom d = {''saturation'', ''temp''}"
    using dom_status [of s' t'] by simp
next
  assume "get_soil_saturation (soil_monitor m) w = (Inl e, w1)"
  then show "get_soil_status m w = (Inl e, w1)"
    by (simp add: get_soil_status_def SoilMonitor_get_soil_saturation_def)
next
  assume "get_soil_saturation (soil_monitor m) w = (Inr s, w1) \<and>
      get_air_temp (soil_monitor m) w1 = (Inl e, w2)"
  then show "get_soil_status m w = (Inl e, w2)"
    by (simp add: get_soil_status_def SoilMonitor_get_soil_saturation_def
        SoilMonitor_get_air_temp_def)
qed

lemma pi_reads:
  "get_soil_saturation (soil_monitor pi_monitor) raspberry_pi =
     (Inr (PyInt 600), raspberry_pi\<lparr>sensor_reads := 1\<rparr>)"
  "get_air_temp (soil_monitor pi_monitor) (raspberry_pi\<lparr>sensor_reads := 1\<rparr>) =
     (Inr (PyFloat (py_round1 (469 / 20))), raspberry_pi\<lparr>sensor_reads := 2\<rparr>)"
  by (simp_all add: pi_monitor_def raspberry_pi_def moisture_read_def get_temp_def)

lemma pi_read_failure_reads:
  "get_soil_saturation (soil_monitor pi_monitor) pi_read_failure =
     (Inl (LibraryError ''Could not get a valid moisture reading.''),
      pi_read_failure\<lparr>sensor_reads := 1\<rparr>)"
  by (simp add: pi_monitor_def pi_read_failure_def raspberry_pi_def moisture_read_def)

theorem get_soil_status_shape_witness:
  "get_soil_saturation (soil_monitor pi_monitor) raspberry_pi =
     (Inr (PyInt 600), raspberry_pi\<lparr>sensor_reads := 1\<rparr>)
   \<and> get_air_temp (soil_monitor pi_monitor) (raspberry_pi\<lparr>sensor_reads := 1\<rparr>) =
     (Inr (PyFloat (py_round1 (469 / 20))), raspberry_pi\<lparr>sensor_reads := 2\<rparr>)
   \<and> (\<exists>d. get_soil_status pi_monitor raspberry_pi = (Inr d, raspberry_pi\<lparr>sensor_reads := 2\<rparr>)
          \<and> dom d = {''saturation'', ''temp''}
          \<and> d ''saturation'' = Some (PyInt 600)
          \<and> d ''temp'' = Some (PyFloat (py_round1 (469 / 20))))
   \<and> always_answers (soil_monitor (status_monitor workstation_app))
   \<and> (\<exists>d w'. get_soil_status (status_monitor workstation_app) workstation = (Inr d, w')
          \<and> dom d = {''saturation'', ''temp''})
   \<and> get_soil_status pi_monitor pi_read_failure =
       (Inl (LibraryError ''Could not get a valid moisture reading.''),
        pi_read_failure\<lparr>sensor_reads := 1\<rparr>)"
proof -
  have a: "always_answers (soil_monitor (status_monitor workstation_app))"
    by (simp add: always_answers_def workstation_app_def)
  show ?thesis
    using get_soil_status_shape [of pi_monitor raspberry_pi "PyInt 600"
        "raspberry_pi\<lparr>sensor_reads := 1\<rparr>" "PyFloat (py_round1 (469 / 20))"
        "raspberry_pi\<lparr>sensor_reads := 2\<rparr>"]
      get_soil_status_shape [of "status_monitor workstation_app" workstation]
      get_soil_status_shape [of pi_monitor pi_read_failure _ _ _ _
        "LibraryError ''Could not get a valid moisture reading.''"]
      pi_reads pi_read_failure_reads a
    by simp
qed

text \<open>
  The claim as stated fails for a ready backend whose driver read raises: no dictionary
  is returned, the driver's exception is.
\<close>

theorem get_soil_status_raises:
  "fst (get_soil_status pi_monitor pi_read_failure)
     = Inl (LibraryError ''Could not get a valid moisture reading.'')"
  by (simp add: get_soil_status_def SoilMonitor_get_soil_saturation_def moisture_read_def
      pi_monitor_def pi_read_failure_def raspberry_pi_def)

section \<open>The health service reads no sensor\<close>

text \<open>
  C10.  \<open>get_health\<close> returns the dictionary of the uptime, computed from the clock's
  reading and the start time kept at construction, and of the backend's name; its only
  effect on the world is the one reading of the clock (no sensor transaction, no draw
  from the random source, no output).  So the payload is the same in two worlds that
  differ in the sensor's values, in the random source or in how much of either was
  consumed.
\<close>

theorem get_health_payload:
  "get_health self w =
     ([''uptime'' \<mapsto> PyInt (py_int (fsub (clock_feed w (clock_reads w)) (start_time self))),
       ''soilMonitor'' \<mapsto> PyStr (get_name (soil_monitor (health_monitor self)))],
      w\<lparr>clock_reads := Suc (clock_reads w)\<rparr>)
   \<and> fst (get_health self
        (w\<lparr>moisture_feed := m, temp_feed := t, sensor_reads := k,
           random_feed := r, random_draws := j\<rparr>)) = fst (get_health self w)"
  by (simp add: get_health_def get_total_app_uptime_seconds_def time_time_def
      get_current_soil_monitor_def SoilMonitor_get_name_def)

section \<open>The backends the services hold\<close>

lemma SoilMonitor_init_result:
  assumes "SoilMonitor_init w = (Inr m, w')"
  shows "monitor_id m = next_id w \<and> backend_id (soil_monitor m) = Suc (next_id w)
         \<and> next_id w' = Suc (Suc (next_id w))
         \<and> soil_monitor_name m = selected_key w
         \<and> get_name (soil_monitor m) =
             (if selected_key w = ''mocked'' then ''Mocked Soil Monitor''
              else ''Adafruit Stemma'')"
proof -
  let ?w0 = "w\<lparr>next_id := Suc (next_id w)\<rparr>"
  consider (m) "selected_key w = ''mocked''" | (a) "selected_key w = ''adafruitstemma''"
    | (o) "selected_key w \<noteq> ''mocked''" "selected_key w \<noteq> ''adafruitstemma''" by blast
  then show ?thesis
  proof cases
    case m
    with assms show ?thesis
      by (auto simp: SoilMonitor_init_unfold get_soil_monitor_def factory_mocked
          Mocked_init_def alloc_def)
  next
    case a
    obtain r w1 where r: "AdafruitStemma_init ?w0 = (r, w1)"
      by (cases "AdafruitStemma_init ?w0")
    with assms a obtain b where b: "r = Inr b" "soil_monitor m = b" "w' = w1"
      "monitor_id m = next_id w" "soil_monitor_name m = selected_key w"
      by (cases r)
         (auto simp: SoilMonitor_init_unfold get_soil_monitor_def factory_adafruitstemma)
    from AdafruitStemma_init_fresh [of ?w0 b w1] AdafruitStemma_init_name [of ?w0 b w1] r b a
    show ?thesis by simp
  next
    case o
    with assms show ?thesis
      by (simp add: SoilMonitor_init_unfold get_soil_monitor_def factory_other)
  qed
qed

lemma get_soil_monitor_frame:
  assumes "get_soil_monitor soil_monitor_factory key w = (r, w')"
  shows "environ w' = environ w \<and> clock_feed w' = clock_feed w
         \<and> clock_reads w' = clock_reads w"
proof -
  consider (m) "key = ''mocked''" | (a) "key = ''adafruitstemma''"
    | (o) "key \<noteq> ''mocked''" "key \<noteq> ''adafruitstemma''" by blast
  then show ?thesis
  proof cases
    case m
    with assms have "Mocked_init w = (r, w')"
      by (simp add: get_soil_monitor_def factory_mocked)
    then show ?thesis by (rule Mocked_init_frame)
  next
    case a
    with assms have "AdafruitStemma_init w = (r, w')"
      by (simp add: get_soil_monitor_def factory_adafruitstemma)
    then show ?thesis by (rule AdafruitStemma_init_frame)
  next
    case o
    then have "soil_monitors soil_monitor_factory key = None" by (rule factory_other)
    with assms have "w' = w" by (simp add: get_soil_monitor_def)
    then show ?thesis by simp
  qed
qed

lemma SoilMonitor_init_frame:
  assumes "SoilMonitor_init w = (r, w')"
  shows "environ w' = environ w \<and> clock_feed w' = clock_feed w
         \<and> clock_reads w' = clock_reads w"
proof -
  let ?w0 = "w\<lparr>next_id := Suc (next_id w)\<rparr>"
  obtain r1 w1 where g: "get_soil_monitor soil_monitor_factory (selected_key w) ?w0 = (r1, w1)"
    by (cases "get_soil_monitor soil_monitor_factory (selected_key w) ?w0")
  with assms have "w' = w1" by (cases r1) (auto simp: SoilMonitor_init_unfold)
  with get_soil_monitor_frame [OF g] show ?thesis by simp
qed

lemma route_keeps_app: "fst (snd (route q (a, w))) = a"
  by (cases q) (simp_all add: split_beta)

lemma serve_keeps_app: "fst (snd (serve qs (a, w))) = a"
proof (induction qs arbitrary: w)
  case Nil
  show ?case by simp
next
  case (Cons q qs)
  obtain r a1 w1 where r: "route q (a, w) = (r, (a1, w1))" by (metis prod.exhaust)
  with route_keeps_app [of q a w] have "a1 = a" by simp
  with r Cons.IH [of w1] show ?case by (simp add: split_beta)
qed

lemma HealthService_init_parts:
  assumes "HealthService_init w = (Inr h, w')"
  obtains m where
    "SoilMonitor_init (w\<lparr>clock_reads := Suc (clock_reads w)\<rparr>) = (Inr m, w')"
    "h = \<lparr>start_time = clock_feed w (clock_reads w), health_monitor = m\<rparr>"
  using assms
  by (auto simp: HealthService_init_def time_time_def split: prod.splits sum.splits)

lemma SoilMonitor_init_workstation:
  "SoilMonitor_init workstation = (Inr (status_monitor workstation_app), workstation_loaded)"
  by (simp add: workstation_def workstation_app_def workstation_loaded_def
      SoilMonitor_init_unfold selected_key_def get_soil_monitor_def factory_mocked
      Mocked_init_def alloc_def)

lemma HealthService_init_workstation:
  "fst (HealthService_init workstation_loaded) = Inr (health_service workstation_app)"
  by (simp add: workstation_def workstation_app_def workstation_loaded_def
      HealthService_init_def time_time_def SoilMonitor_init_unfold selected_key_def
      get_soil_monitor_def factory_mocked Mocked_init_def alloc_def)

lemma HealthService_init_workstation_pair:
  "HealthService_init workstation_loaded =
     (Inr (health_service workstation_app), snd (HealthService_init workstation_loaded))"
  using HealthService_init_workstation by (simp add: prod_eq_iff)

text \<open>
  Importing \<^verbatim>\<open>app.py\<close> never gets as far as constructing anything: it loads
  \<^verbatim>\<open>services/soil.py\<close> as a module of the top-level package \<^verbatim>\<open>services\<close>, where the
  two dots of line 1 reach beyond the top level.  Loaded as a module of a package that has
  a parent, the same file runs the import guard and constructs its monitor.
\<close>

lemma startup_ImportError:
  "startup w = (Inl (ImportError ''attempted relative import beyond top-level package''), w)"
  by (simp add: startup_def load_services_soil_def resolve_name_def)

lemma load_services_soil_in_package:
  "2 \<le> length package \<Longrightarrow>
     load_services_soil package w =
       (case import_guard w of
          (Inl e, w1) \<Rightarrow> (Inl e, w1)
        | (Inr u, w1) \<Rightarrow> SoilMonitor_init w1)"
  by (simp add: load_services_soil_def resolve_name_def)

text \<open>
  C3, as the code has it.  Line 3 of \<^verbatim>\<open>services/soil.py\<close> constructs the monitor the
  status service reads, and \<^verbatim>\<open>HealthService.__init__\<close> constructs a monitor of its own:
  two monitors and two backend instances, so the two services read from different
  objects.  Both are resolved from the same key, so they are of the same class and
  report the same name; and no request replaces either: after any sequence of requests
  the handlers are left with the two objects as they were constructed.
\<close>

theorem separate_backends:
  assumes "SoilMonitor_init w = (Inr m, w1)" and "HealthService_init w1 = (Inr h, w2)"
  shows "backend_id (soil_monitor m) \<noteq> backend_id (soil_monitor (health_monitor h))
         \<and> monitor_id m \<noteq> monitor_id (health_monitor h)
         \<and> soil_monitor_name m = soil_monitor_name (health_monitor h)
         \<and> get_name (soil_monitor m) = get_name (soil_monitor (health_monitor h))
         \<and> fst (snd (serve qs (\<lparr>status_monitor = m, health_service = h\<rparr>, w2)))
             = \<lparr>status_monitor = m, health_service = h\<rparr>"
proof -
  let ?w1 = "w1\<lparr>clock_reads := Suc (clock_reads w1)\<rparr>"
  from assms(2) obtain m' where
    m': "SoilMonitor_init ?w1 = (Inr m', w2)" and
    h: "h = \<lparr>start_time = clock_feed w1 (clock_reads w1), health_monitor = m'\<rparr>"
    by (rule HealthService_init_parts)
  have e: "selected_key ?w1 = selected_key w"
    using SoilMonitor_init_frame [OF assms(1)] by (simp add: selected_key_def)
  from SoilMonitor_init_result [OF assms(1)] SoilMonitor_init_result [OF m'] e h
  show ?thesis by (simp add: serve_keeps_app)
qed

theorem separate_backends_witness:
  "SoilMonitor_init workstation = (Inr (status_monitor workstation_app), workstation_loaded)
   \<and> HealthService_init workstation_loaded =
       (Inr (health_service workstation_app), snd (HealthService_init workstation_loaded))
   \<and> backend_id (soil_monitor (status_monitor workstation_app))
       \<noteq> backend_id (soil_monitor (health_monitor (health_service workstation_app)))
   \<and> get_name (soil_monitor (status_monitor workstation_app))
       = get_name (soil_monitor (health_monitor (health_service workstation_app)))
   \<and> fst (snd (serve [GET_root, GET_health, GET_root]
                (\<lparr>status_monitor = status_monitor workstation_app,
                  health_service = health_service workstation_app\<rparr>,
                 snd (HealthService_init workstation_loaded))))
       = \<lparr>status_monitor = status_monitor workstation_app,
          health_service = health_service workstation_app\<rparr>"
  using separate_backends [OF SoilMonitor_init_workstation HealthService_init_workstation_pair,
      of "[GET_root, GET_health, GET_root]"]
    SoilMonitor_init_workstation HealthService_init_workstation_pair
  by simp

text \<open>
  The claim as stated fails wherever both are constructed: on the workstation line 3 of
  \<^verbatim>\<open>services/soil.py\<close> gives the status service the simulated backend with identity 1,
  and \<^verbatim>\<open>HealthService()\<close>, called next, holds the one with identity 3.
\<close>

theorem two_constructions_two_backends:
  "SoilMonitor_init workstation = (Inr (status_monitor workstation_app), workstation_loaded)
   \<and> fst (HealthService_init workstation_loaded) = Inr (health_service workstation_app)
   \<and> soil_monitor (status_monitor workstation_app) = MockedSoilMonitor 1
   \<and> soil_monitor (health_monitor (health_service workstation_app)) = MockedSoilMonitor 3
   \<and> soil_monitor (status_monitor workstation_app)
       \<noteq> soil_monitor (health_monitor (health_service workstation_app))"
  using SoilMonitor_init_workstation HealthService_init_workstation
  by (simp add: workstation_app_def)

section \<open>The simulated backend's temperature\<close>

lemma rne_at: "of_int n \<le> x \<Longrightarrow> x < of_int n + 1 / 2 \<Longrightarrow> rne x = n"
proof -
  assume a: "of_int n \<le> x" "x < of_int n + 1 / 2"
  then have "\<lfloor>x\<rfloor> = n" by (intro floor_unique) simp_all
  with a show ?thesis by (simp add: rne_def)
qed

lemma round_double_50: "round_double 50 = 50"
  using round_double_at [of 50 5] by (simp add: rne_def)

lemma round_double_top: "round_double (50 * ((2 ^ 53 - 1) / 2 ^ 53)) = 50 - 1 / 2 ^ 47"
proof -
  let ?x = "50 * ((2 ^ 53 - 1) / 2 ^ 53) :: rat"
  have r: "rne (?x / 2 powi (5 - 52)) = 50 * 2 ^ 47 - 1"
    by (rule rne_at) simp_all
  have "round_double ?x = of_int (rne (?x / 2 powi (5 - 52))) * 2 powi (5 - 52)"
    by (rule round_double_at) simp_all
  then show ?thesis unfolding r by simp
qed

lemma round_double_below_50: "round_double (50 - 1 / 2 ^ 47) = 50 - 1 / 2 ^ 47"
proof -
  let ?x = "50 - 1 / 2 ^ 47 :: rat"
  have r: "rne (?x / 2 powi (5 - 52)) = 50 * 2 ^ 47 - 1"
    by (rule rne_at) simp_all
  have "round_double ?x = of_int (rne (?x / 2 powi (5 - 52))) * 2 powi (5 - 52)"
    by (rule round_double_at) simp_all
  then show ?thesis unfolding r by simp
qed

lemma random_random_range:
  "0 \<le> fst (random_random w) \<and> fst (random_random w) \<le> (2 ^ 53 - 1) / 2 ^ 53"
proof -
  let ?k = "random_feed w (random_draws w) mod 2 ^ 53"
  have "?k < 2 ^ 53" by simp
  then have "?k \<le> 2 ^ 53 - 1" by linarith
  then have "(of_nat ?k :: rat) \<le> of_nat (2 ^ 53 - 1)" by (simp only: of_nat_le_iff)
  then have "(of_nat ?k :: rat) \<le> 2 ^ 53 - 1" by simp
  then show ?thesis by (simp add: random_random_def divide_right_mono)
qed

lemma random_uniform_0_50:
  "0 \<le> fst (random_uniform 0 50 w) \<and> fst (random_uniform 0 50 w) \<le> 50 - 1 / 2 ^ 47"
proof -
  let ?u = "fst (random_random w)"
  let ?y = "round_double (50 * ?u)"
  have t: "fst (random_uniform 0 50 w) = round_double ?y"
    by (simp add: random_uniform_def split_beta fadd_def fmul_def float_of_int_def
        round_double_zero round_double_50)
  from random_random_range [of w] have u: "0 \<le> ?u" "?u \<le> (2 ^ 53 - 1) / 2 ^ 53" by simp_all
  have "0 \<le> 50 * ?u" using u(1) by simp
  then have y0: "0 \<le> ?y" by (rule round_double_nonneg)
  have "50 * ?u \<le> 50 * ((2 ^ 53 - 1) / 2 ^ 53)" using u(2) by simp
  from round_double_mono [OF this] have y1: "?y \<le> 50 - 1 / 2 ^ 47"
    by (simp only: round_double_top)
  from round_double_nonneg [OF y0] round_double_mono [OF y1] t show ?thesis
    by (simp only: round_double_below_50)
qed

text \<open>
  C9.  The simulated backend's \<open>get_air_temp\<close> always returns a float \<open>t\<close> with
  \<open>0 \<le> t < 50\<close>, whatever the random source yields: \<^verbatim>\<open>random.uniform(0, 50)\<close> is
  \<open>0 + 50 * u\<close> for a \<open>u = k / 2^53\<close> below 1, and the largest product, rounded to a
  double, is \<open>50 - 1 / 2^47\<close>.
\<close>

theorem mocked_air_temp_range:
  "\<exists>t. fst (get_air_temp (MockedSoilMonitor i) w) = Inr (PyFloat t) \<and> 0 \<le> t \<and> t < 50"
proof -
  have "fst (get_air_temp (MockedSoilMonitor i) w) = Inr (PyFloat (fst (random_uniform 0 50 w)))"
    by (simp add: split_beta)
  moreover have "0 \<le> fst (random_uniform 0 50 w)" "fst (random_uniform 0 50 w) < 50"
    using random_uniform_0_50 [of w] by simp_all
  ultimately show ?thesis by blast
qed

text \<open>The bound is met: at the random source's largest outcome the temperature is
  \<open>50 - 1 / 2^47\<close>, the largest double below 50.\<close>

lemma mocked_air_temp_top:
  "fst (get_air_temp (MockedSoilMonitor i) (w\<lparr>random_feed := (\<lambda>n. 2 ^ 53 - 1)\<rparr>))
     = Inr (PyFloat (50 - 1 / 2 ^ 47))"
proof -
  let ?w = "w\<lparr>random_feed := (\<lambda>n. 2 ^ 53 - 1)\<rparr>"
  have u: "fst (random_random ?w) = (2 ^ 53 - 1) / 2 ^ 53"
    by (simp add: random_random_def of_nat_diff)
  have "fst (random_uniform 0 50 ?w) = round_double (round_double (50 * fst (random_random ?w)))"
    by (simp add: random_uniform_def split_beta fadd_def fmul_def float_of_int_def
        round_double_zero round_double_50)
  also have "\<dots> = 50 - 1 / 2 ^ 47"
    unfolding u round_double_top round_double_below_50 ..
  finally show ?thesis by (simp add: split_beta)
qed

section \<open>The uptime never decreases\<close>

lemma get_soil_saturation_clock:
  "clock_feed (snd (get_soil_saturation b w)) = clock_feed w
   \<and> clock_reads (snd (get_soil_saturation b w)) = clock_reads w"
  by (cases b)
     (auto simp: moisture_read_def random_randint_def print_def split: option.splits sum.splits)

lemma get_air_temp_clock:
  "clock_feed (snd (get_air_temp b w)) = clock_feed w
   \<and> clock_reads (snd (get_air_temp b w)) = clock_reads w"
  by (cases b)
     (auto simp: get_temp_def random_uniform_def random_random_def print_def split_beta
        split: option.splits sum.splits)

lemma get_soil_status_clock:
  "clock_feed (snd (get_soil_status m w)) = clock_feed w
   \<and> clock_reads (snd (get_soil_status m w)) = clock_reads w"
proof -
  obtain r1 w1 where 1: "get_soil_saturation (soil_monitor m) w = (r1, w1)"
    by (cases "get_soil_saturation (soil_monitor m) w")
  obtain r2 w2 where 2: "get_air_temp (soil_monitor m) w1 = (r2, w2)"
    by (cases "get_air_temp (soil_monitor m) w1")
  from get_soil_saturation_clock [of "soil_monitor m" w] 1
  have c1: "clock_feed w1 = clock_feed w" "clock_reads w1 = clock_reads w" by simp_all
  from get_air_temp_clock [of "soil_monitor m" w1] 2
  have c2: "clock_feed w2 = clock_feed w1" "clock_reads w2 = clock_reads w1" by simp_all
  show ?thesis
    using 1 2 c1 c2
    by (cases r1; cases r2)
       (simp_all add: get_soil_status_def SoilMonitor_get_soil_saturation_def
          SoilMonitor_get_air_temp_def)
qed

lemma get_soil_status_no_uptime: "uptime_of (fst (get_soil_status m w)) = None"
  by (auto simp: get_soil_status_def split: prod.splits sum.splits)

lemma uptime_at_mono:
  "mono (clock_feed w) \<Longrightarrow> i \<le> j \<Longrightarrow> uptime_at h w i \<le> uptime_at h w j"
  unfolding uptime_at_def by (intro uptime_mono) (simp add: monoD)

lemma route_root:
  "\<exists>r w1. route GET_root (a, w) = (r, (a, w1)) \<and> uptime_of r = None
      \<and> clock_feed w1 = clock_feed w \<and> clock_reads w1 = clock_reads w"
  using get_soil_status_clock [of "status_monitor a" w]
    get_soil_status_no_uptime [of "status_monitor a" w]
  by (simp add: split_beta)

lemma route_health:
  "\<exists>r w1. route GET_health (a, w) = (r, (a, w1))
      \<and> uptime_of r = Some (uptime_at (health_service a) w (clock_reads w))
      \<and> clock_feed w1 = clock_feed w \<and> clock_reads w1 = Suc (clock_reads w)"
  by (simp add: get_health_def get_total_app_uptime_seconds_def time_time_def uptime_at_def)

lemma serve_uptimes:
  assumes "mono (clock_feed w)"
  shows "sorted (uptimes (fst (serve qs (a, w))))
         \<and> (\<forall>u \<in> set (uptimes (fst (serve qs (a, w)))).
               \<forall>n \<le> clock_reads w. uptime_at (health_service a) w n \<le> u)
         \<and> length (uptimes (fst (serve qs (a, w)))) = length (filter (\<lambda>q. q = GET_health) qs)"
  using assms
proof (induction qs arbitrary: w)
  case Nil
  show ?case by (simp add: uptimes_def)
next
  case (Cons q qs)
  show ?case
  proof (cases q)
    case GET_root
    from route_root [of a w] obtain r w1 where
      r: "route GET_root (a, w) = (r, (a, w1))" "uptime_of r = None"
      "clock_feed w1 = clock_feed w" "clock_reads w1 = clock_reads w" by blast
    have m: "mono (clock_feed w1)" using Cons.prems r(3) by simp
    have u: "uptimes (fst (serve (q # qs) (a, w))) = uptimes (fst (serve qs (a, w1)))"
      using GET_root r(1,2) by (simp add: uptimes_def split_beta)
    have at: "uptime_at (health_service a) w1 = uptime_at (health_service a) w"
      using r(3) by (simp add: uptime_at_def fun_eq_iff)
    from Cons.IH [OF m] show ?thesis
      unfolding u at r(4) using GET_root by simp
  next
    case GET_health
    let ?h = "health_service a"
    from route_health [of a w] obtain r w1 where
      r: "route GET_health (a, w) = (r, (a, w1))"
      "uptime_of r = Some (uptime_at ?h w (clock_reads w))"
      "clock_feed w1 = clock_feed w" "clock_reads w1 = Suc (clock_reads w)" by blast
    have m: "mono (clock_feed w1)" using Cons.prems r(3) by simp
    have u: "uptimes (fst (serve (q # qs) (a, w))) =
               uptime_at ?h w (clock_reads w) # uptimes (fst (serve qs (a, w1)))"
      using GET_health r(1,2) by (simp add: uptimes_def split_beta)
    have at: "uptime_at ?h w1 = uptime_at ?h w"
      using r(3) by (simp add: uptime_at_def fun_eq_iff)
    from Cons.IH [OF m] have ih:
      "sorted (uptimes (fst (serve qs (a, w1))))"
      "\<forall>u \<in> set (uptimes (fst (serve qs (a, w1)))).
          \<forall>n \<le> Suc (clock_reads w). uptime_at ?h w n \<le> u"
      "length (uptimes (fst (serve qs (a, w1)))) = length (filter (\<lambda>q. q = GET_health) qs)"
      unfolding at r(4) by simp_all
    have head: "\<forall>n \<le> clock_reads w. uptime_at ?h w n \<le> uptime_at ?h w (clock_reads w)"
      using uptime_at_mono [OF Cons.prems] by simp
    show ?thesis
      unfolding u using ih head GET_health by auto
  qed
qed

text \<open>
  C7.  Let the clock never go back (\<open>clock_feed\<close> is monotone), let a health service be
  constructed, and let any sequence of requests then be served with it.  The uptimes
  reported by the responses to \<^verbatim>\<open>GET /health\<close>, one per such request and in the order
  of the requests, are sorted in non-decreasing order, and each of them, the first
  included, is at least 0.
\<close>

theorem uptime_monotone:
  assumes "mono (clock_feed w)" and "HealthService_init w = (Inr h, w0)"
  shows "sorted (uptimes (fst (serve qs (\<lparr>status_monitor = m, health_service = h\<rparr>, w0))))
         \<and> (\<forall>u \<in> set (uptimes (fst (serve qs
                 (\<lparr>status_monitor = m, health_service = h\<rparr>, w0)))). 0 \<le> u)
         \<and> length (uptimes (fst (serve qs (\<lparr>status_monitor = m, health_service = h\<rparr>, w0))))
             = length (filter (\<lambda>q. q = GET_health) qs)"
proof -
  let ?a = "\<lparr>status_monitor = m, health_service = h\<rparr>"
  from assms(2) obtain m' where
    m': "SoilMonitor_init (w\<lparr>clock_reads := Suc (clock_reads w)\<rparr>) = (Inr m', w0)" and
    h: "h = \<lparr>start_time = clock_feed w (clock_reads w), health_monitor = m'\<rparr>"
    by (rule HealthService_init_parts)
  have f: "clock_feed w0 = clock_feed w" "clock_reads w0 = Suc (clock_reads w)"
    using SoilMonitor_init_frame [OF m'] by simp_all
  have mono0: "mono (clock_feed w0)" using assms(1) f by simp
  have start: "uptime_at (health_service ?a) w0 (clock_reads w) = 0"
    using h f by (simp add: uptime_at_def fsub_def round_double_zero py_int_def)
  from serve_uptimes [OF mono0, of qs ?a] have s:
    "sorted (uptimes (fst (serve qs (?a, w0))))"
    "\<forall>u \<in> set (uptimes (fst (serve qs (?a, w0)))).
        \<forall>n \<le> clock_reads w0. uptime_at (health_service ?a) w0 n \<le> u"
    "length (uptimes (fst (serve qs (?a, w0)))) = length (filter (\<lambda>q. q = GET_health) qs)"
    by simp_all
  have "\<forall>u \<in> set (uptimes (fst (serve qs (?a, w0)))). 0 \<le> u"
  proof
    fix u assume "u \<in> set (uptimes (fst (serve qs (?a, w0))))"
    with s(2) f(2) have "uptime_at (health_service ?a) w0 (clock_reads w) \<le> u" by simp
    with start show "0 \<le> u" by simp
  qed
  with s(1,3) show ?thesis by simp
qed

lemma mono_workstation: "mono (clock_feed workstation_loaded)"
  by (simp add: workstation_loaded_def workstation_def mono_def divide_right_mono)

theorem uptime_monotone_witness:
  "mono (clock_feed workstation_loaded)
   \<and> HealthService_init workstation_loaded =
       (Inr (health_service workstation_app), snd (HealthService_init workstation_loaded))
   \<and> sorted (uptimes (fst (serve [GET_health, GET_root, GET_health, GET_health]
        (\<lparr>status_monitor = status_monitor workstation_app,
          health_service = health_service workstation_app\<rparr>,
         snd (HealthService_init workstation_loaded)))))
   \<and> list_all (\<lambda>u. 0 \<le> u) (uptimes (fst (serve [GET_health, GET_root, GET_health, GET_health]
        (\<lparr>status_monitor = status_monitor workstation_app,
          health_service = health_service workstation_app\<rparr>,
         snd (HealthService_init workstation_loaded)))))
   \<and> length (uptimes (fst (serve [GET_health, GET_root, GET_health, GET_health]
        (\<lparr>status_monitor = status_monitor workstation_app,
          health_service = health_service workstation_app\<rparr>,
         snd (HealthService_init workstation_loaded))))) = 3"
  using uptime_monotone [OF mono_workstation HealthService_init_workstation_pair,
      of "[GET_health, GET_root, GET_health, GET_health]" "status_monitor workstation_app"]
    mono_workstation HealthService_init_workstation_pair
  by (simp add: list_all_iff)

end
